theory Spec2Isabelle
  imports Main
begin

section \<open>The OTP verification flow of \<^verbatim>\<open>main.py\<close>\<close>

text \<open>
  The two request handlers \<^verbatim>\<open>start_otp\<close> and \<^verbatim>\<open>verify_otp\<close> share one persisted
  document per phone number in the collection \<^verbatim>\<open>db["auth"]\<close>. Everything the handlers take
  from outside (the clock, the random number generator, the identifier of a newly inserted
  document) is an explicit argument; the collection is passed in and returned.
\<close>

subsection \<open>Data model\<close>

text \<open>
  Timestamps (\<^verbatim>\<open>datetime\<close> values in UTC) are integers counting microseconds, the
  resolution of \<^verbatim>\<open>datetime\<close>; the store hands a timestamp back as it was written.
\<close>

type_synonym datetime = int

text \<open>\<^verbatim>\<open>timedelta(minutes=5)\<close>, in microseconds.\<close>

definition timedelta_minutes :: "int \<Rightarrow> int" where
  "timedelta_minutes m = m * 60 * 1000000"

text \<open>
  A document of the collection \<^verbatim>\<open>auth\<close> (class \<^verbatim>\<open>Auth\<close> of \<^verbatim>\<open>schemas.py\<close>, with the
  fields \<^verbatim>\<open>_id\<close>, \<^verbatim>\<open>created_at\<close> and \<^verbatim>\<open>updated_at\<close> that \<^verbatim>\<open>start_otp\<close> adds).
  \<^verbatim>\<open>otp_code\<close> and \<^verbatim>\<open>otp_expires\<close> are the two fields that \<^verbatim>\<open>$unset\<close> removes:
  \<open>None\<close> is an absent field.
\<close>

record Auth =
  doc_id :: nat
  name :: string
  phone :: string
  otp_code :: "string option"
  otp_expires :: "datetime option"
  verified :: bool
  created_at :: datetime
  updated_at :: datetime

text \<open>
  The collection is the list of its documents in insertion order. The module-level \<^verbatim>\<open>db\<close>
  is \<open>None\<close> when the database is not available.
\<close>

type_synonym collection = "Auth list"
type_synonym database = "collection option"

text \<open>The request bodies; pydantic checks the lengths before a handler runs.\<close>

record StartOtpRequest =
  start_name :: string
  start_phone :: string

record VerifyOtpRequest =
  verify_phone :: string
  verify_otp_code :: string

definition valid_StartOtpRequest :: "StartOtpRequest \<Rightarrow> bool" where
  "valid_StartOtpRequest req =
     (2 \<le> length (start_name req) \<and> length (start_name req) \<le> 80 \<and>
      8 \<le> length (start_phone req) \<and> length (start_phone req) \<le> 16)"

definition valid_VerifyOtpRequest :: "VerifyOtpRequest \<Rightarrow> bool" where
  "valid_VerifyOtpRequest req =
     (8 \<le> length (verify_phone req) \<and> length (verify_phone req) \<le> 16 \<and>
      4 \<le> length (verify_otp_code req) \<and> length (verify_otp_code req) \<le> 6)"

text \<open>\<^verbatim>\<open>HTTPException(status_code, detail)\<close>.\<close>

datatype HTTPException = HTTPException nat string

text \<open>The JSON bodies of the two successful responses.\<close>

record StartResponse =
  start_ok :: bool
  demo_otp :: string
  expires_in_sec :: int

record VerifyResponse =
  verify_ok :: bool
  resp_verified :: bool

subsection \<open>Strings: \<^verbatim>\<open>str.strip()\<close> and \<^verbatim>\<open>f"{n}"\<close>\<close>

text \<open>
  A \<^verbatim>\<open>str\<close> is a list of characters, a character standing for a code point below 256.
  The characters below 256 that \<^verbatim>\<open>str.strip()\<close> removes (those with
  \<^verbatim>\<open>str.isspace()\<close> true): tab, line feed, vertical tab, form feed, carriage return,
  the four separators 0x1C to 0x1F, space, next line and no-break space.
\<close>

definition whitespace :: "char list" where
  "whitespace = [CHR 0x09, CHR 0x0A, CHR 0x0B, CHR 0x0C, CHR 0x0D,
                 CHR 0x1C, CHR 0x1D, CHR 0x1E, CHR 0x1F, CHR 0x20, CHR 0x85, CHR 0xA0]"

definition isspace :: "char \<Rightarrow> bool" where
  "isspace c = (c \<in> set whitespace)"

definition lstrip :: "string \<Rightarrow> string" where
  "lstrip s = dropWhile isspace s"

definition rstrip :: "string \<Rightarrow> string" where
  "rstrip s = rev (dropWhile isspace (rev s))"

definition strip :: "string \<Rightarrow> string" where
  "strip s = rstrip (lstrip s)"

text \<open>The decimal digit of a number below ten.\<close>

definition digits :: "char list" where
  "digits = ''0123456789''"

definition digit_char :: "nat \<Rightarrow> char" where
  "digit_char d = digits ! d"

text \<open>\<^verbatim>\<open>f"{n}"\<close> for an integer: decimal, no padding, a minus sign when negative.\<close>

fun str_nat :: "nat \<Rightarrow> string" where
  "str_nat n = (if n < 10 then [digit_char n] else str_nat (n div 10) @ [digit_char (n mod 10)])"

declare str_nat.simps [simp del]

definition format_int :: "int \<Rightarrow> string" where
  "format_int i = (if i < 0 then CHR ''-'' # str_nat (nat (- i)) else str_nat (nat i))"

text \<open>
  The integer value of a string of decimal digits (\<^verbatim>\<open>int(s)\<close>); the value of a digit
  is its position in \<open>digits\<close>.
\<close>

definition digit_val :: "char \<Rightarrow> nat" where
  "digit_val c = length (takeWhile (\<lambda>x. x \<noteq> c) digits)"

definition int_str :: "string \<Rightarrow> nat" where
  "int_str s = foldl (\<lambda>a c. 10 * a + digit_val c) 0 s"

text \<open>
  \<^verbatim>\<open>random.randint(a, b)\<close> returns an integer \<open>N\<close> with \<open>a \<le> N \<le> b\<close>, chosen by the
  generator. The third argument is the outcome of the generator, an arbitrary integer, which
  \<open>randint\<close> brings into the closed interval; an outcome within the interval is returned
  as it is.
\<close>

definition randint :: "int \<Rightarrow> int \<Rightarrow> int \<Rightarrow> int" where
  "randint a b u = a + (u - a) mod (b - a + 1)"

subsection \<open>The store operations used by the handlers\<close>

text \<open>\<^verbatim>\<open>find_one(filter)\<close>: the first document that matches, or \<open>None\<close>.\<close>

definition find_one :: "(Auth \<Rightarrow> bool) \<Rightarrow> collection \<Rightarrow> Auth option" where
  "find_one q ds = List.find q ds"

text \<open>
  \<^verbatim>\<open>update_one(filter, update, upsert)\<close>: the first document that matches is updated;
  when none matches, the document \<open>ins\<close> is inserted if there is one (\<^verbatim>\<open>upsert=True\<close>).
\<close>

fun update_one :: "(Auth \<Rightarrow> bool) \<Rightarrow> (Auth \<Rightarrow> Auth) \<Rightarrow> Auth option \<Rightarrow> collection \<Rightarrow> collection" where
  "update_one q u ins [] = (case ins of None \<Rightarrow> [] | Some d \<Rightarrow> [d])"
| "update_one q u ins (d # ds) = (if q d then u d # ds else d # update_one q u ins ds)"

text \<open>The two filters of the handlers: \<^verbatim>\<open>{"phone": p}\<close> and \<^verbatim>\<open>{"_id": i}\<close>.\<close>

definition by_phone :: "string \<Rightarrow> Auth \<Rightarrow> bool" where
  "by_phone p d = (phone d = p)"

definition by_id :: "nat \<Rightarrow> Auth \<Rightarrow> bool" where
  "by_id i d = (doc_id d = i)"

subsection \<open>\<^verbatim>\<open>start_otp\<close>\<close>

text \<open>
  What one call of \<^verbatim>\<open>start_otp\<close> reads from outside: the outcome of the random number
  generator for \<^verbatim>\<open>random.randint(100000, 999999)\<close>, the three readings of \<^verbatim>\<open>datetime.now\<close> (for
  the expiry, for \<^verbatim>\<open>updated_at\<close> and for \<^verbatim>\<open>created_at\<close>, in this order), and the
  \<^verbatim>\<open>_id\<close> that the store gives a document it inserts.
\<close>

record start_env =
  rand :: int
  now_expires :: datetime
  now_updated :: datetime
  now_created :: datetime
  new_id :: nat

text \<open>The \<^verbatim>\<open>$set\<close> of the payload, on an existing document.\<close>

definition set_payload :: "string \<Rightarrow> string \<Rightarrow> string \<Rightarrow> datetime \<Rightarrow> datetime \<Rightarrow> Auth \<Rightarrow> Auth" where
  "set_payload nm ph otp expires upd d =
     d\<lparr>name := nm, phone := ph, otp_code := Some otp, otp_expires := Some expires,
       verified := False, updated_at := upd\<rparr>"

text \<open>The document an upsert inserts: the payload, \<^verbatim>\<open>created_at\<close> and a new \<^verbatim>\<open>_id\<close>.\<close>

definition inserted_doc :: "nat \<Rightarrow> string \<Rightarrow> string \<Rightarrow> string \<Rightarrow> datetime \<Rightarrow> datetime \<Rightarrow> datetime \<Rightarrow> Auth" where
  "inserted_doc i nm ph otp expires upd cre =
     \<lparr>doc_id = i, name = nm, phone = ph, otp_code = Some otp, otp_expires = Some expires,
      verified = False, created_at = cre, updated_at = upd\<rparr>"

definition start_otp :: "database \<Rightarrow> start_env \<Rightarrow> StartOtpRequest \<Rightarrow> (HTTPException + StartResponse) \<times> database" where
  "start_otp db env req =
     (case db of
        None \<Rightarrow> (Inl (HTTPException 500 ''Database not available''), db)
      | Some auth \<Rightarrow>
          let otp = format_int (randint 100000 999999 (rand env));
              expires = now_expires env + timedelta_minutes 5;
              nm = strip (start_name req);
              ph = strip (start_phone req);
              auth' = update_one (by_phone ph)
                        (set_payload nm ph otp expires (now_updated env))
                        (Some (inserted_doc (new_id env) nm ph otp expires (now_updated env) (now_created env)))
                        auth
          in (Inr \<lparr>start_ok = True, demo_otp = otp, expires_in_sec = 300\<rparr>, Some auth'))"

subsection \<open>\<^verbatim>\<open>verify_otp\<close>\<close>

text \<open>Python's truth value of \<^verbatim>\<open>record.get("otp_code")\<close>: an absent field and the empty string are false.\<close>

definition truthy_str :: "string option \<Rightarrow> bool" where
  "truthy_str v = (case v of None \<Rightarrow> False | Some s \<Rightarrow> s \<noteq> [])"

text \<open>A \<^verbatim>\<open>datetime\<close> is always true; only the absent field is false.\<close>

definition truthy_datetime :: "datetime option \<Rightarrow> bool" where
  "truthy_datetime v = (v \<noteq> None)"

text \<open>The update of a successful verification: \<^verbatim>\<open>$set\<close> verified, \<^verbatim>\<open>$unset\<close> both OTP fields.\<close>

definition mark_verified :: "Auth \<Rightarrow> Auth" where
  "mark_verified d = d\<lparr>verified := True, otp_code := None, otp_expires := None\<rparr>"

definition verify_otp :: "database \<Rightarrow> datetime \<Rightarrow> VerifyOtpRequest \<Rightarrow> (HTTPException + VerifyResponse) \<times> database" where
  "verify_otp db now req =
     (case db of
        None \<Rightarrow> (Inl (HTTPException 500 ''Database not available''), db)
      | Some auth \<Rightarrow>
          (case find_one (by_phone (verify_phone req)) auth of
             None \<Rightarrow> (Inl (HTTPException 404 ''Start verification first''), db)
           | Some record \<Rightarrow>
               if \<not> truthy_str (otp_code record) \<or> \<not> truthy_datetime (otp_expires record)
               then (Inl (HTTPException 400 ''No OTP generated''), db)
               else if now > the (otp_expires record)
               then (Inl (HTTPException 400 ''OTP expired''), db)
               else if verify_otp_code req \<noteq> the (otp_code record)
               then (Inl (HTTPException 400 ''Invalid OTP''), db)
               else (Inr \<lparr>verify_ok = True, resp_verified = True\<rparr>,
                     Some (update_one (by_id (doc_id record)) mark_verified None auth))))"

subsection \<open>Sequences of requests and the invariants of the data model\<close>

text \<open>The documents of a database; none when it is not available.\<close>

definition docs :: "database \<Rightarrow> collection" where
  "docs db = (case db of None \<Rightarrow> [] | Some auth \<Rightarrow> auth)"

text \<open>A request to one of the two endpoints, with what the handler reads from outside.\<close>

datatype call = Start start_env StartOtpRequest | Verify datetime VerifyOtpRequest

fun handle :: "database \<Rightarrow> call \<Rightarrow> database" where
  "handle db (Start env req) = snd (start_otp db env req)"
| "handle db (Verify now req) = snd (verify_otp db now req)"

definition run :: "database \<Rightarrow> call list \<Rightarrow> database" where
  "run db cs = foldl handle db cs"

text \<open>\<^verbatim>\<open>otp_code\<close> and \<^verbatim>\<open>otp_expires\<close> are both present or both absent.\<close>

definition otp_pair :: "Auth \<Rightarrow> bool" where
  "otp_pair d = ((otp_code d = None) = (otp_expires d = None))"

text \<open>A verified document holds no OTP.\<close>

definition verified_clear :: "Auth \<Rightarrow> bool" where
  "verified_clear d = (verified d \<longrightarrow> otp_code d = None \<and> otp_expires d = None)"

text \<open>The store keeps \<^verbatim>\<open>_id\<close> unique.\<close>

definition unique_ids :: "collection \<Rightarrow> bool" where
  "unique_ids ds = distinct (map doc_id ds)"

section \<open>Properties\<close>

subsection \<open>Decimal strings\<close>

lemma digit_char_cases: "d < 10 \<Longrightarrow> d = 0 \<or> d = 1 \<or> d = 2 \<or> d = 3 \<or> d = 4 \<or> d = 5 \<or> d = 6 \<or> d = 7 \<or> d = 8 \<or> d = (9::nat)"
  by arith

lemma digit_val_digit_char: "d < 10 \<Longrightarrow> digit_val (digit_char d) = d"
  using digit_char_cases [of d]
  by (auto simp: digit_val_def digit_char_def digits_def)

lemma digit_char_in_digits: "d < 10 \<Longrightarrow> digit_char d \<in> set digits"
  unfolding digit_char_def by (rule nth_mem) (simp add: digits_def)

lemma digit_char_nonzero: "0 < d \<Longrightarrow> d < 10 \<Longrightarrow> digit_char d \<noteq> CHR ''0''"
  using digit_char_cases [of d]
  by (auto simp: digit_char_def digits_def)

lemma str_nat_nonempty: "str_nat n \<noteq> []"
  by (subst str_nat.simps) simp

lemma int_str_snoc: "int_str (s @ [c]) = 10 * int_str s + digit_val c"
  by (simp add: int_str_def)

lemma int_str_str_nat: "int_str (str_nat n) = n"
proof (induction n rule: str_nat.induct)
  case (1 n)
  show ?case
  proof (cases "n < 10")
    case True
    then show ?thesis
      by (subst str_nat.simps) (simp add: int_str_def digit_val_digit_char)
  next
    case False
    with 1 have "int_str (str_nat (n div 10)) = n div 10" by simp
    with False show ?thesis
      by (subst str_nat.simps) (simp add: int_str_snoc digit_val_digit_char)
  qed
qed

lemma str_nat_digits: "set (str_nat n) \<subseteq> set digits"
proof (induction n rule: str_nat.induct)
  case (1 n)
  show ?case
  proof (cases "n < 10")
    case True
    then show ?thesis
      by (subst str_nat.simps) (simp add: digit_char_in_digits)
  next
    case False
    with 1 have "set (str_nat (n div 10)) \<subseteq> set digits" by simp
    with False show ?thesis
      by (subst str_nat.simps) (simp add: digit_char_in_digits)
  qed
qed

lemma hd_str_nat: "0 < n \<Longrightarrow> hd (str_nat n) \<noteq> CHR ''0''"
proof (induction n rule: str_nat.induct)
  case (1 n)
  show ?case
  proof (cases "n < 10")
    case True
    with 1(2) show ?thesis
      by (subst str_nat.simps) (simp add: digit_char_nonzero)
  next
    case False
    then have "0 < n div 10" by simp
    with 1(1) False have "hd (str_nat (n div 10)) \<noteq> CHR ''0''" by simp
    with False show ?thesis
      by (subst str_nat.simps) (simp add: str_nat_nonempty)
  qed
qed

lemma length_str_nat: "10 ^ k \<le> n \<Longrightarrow> n < 10 ^ Suc k \<Longrightarrow> length (str_nat n) = Suc k"
proof (induction k arbitrary: n)
  case 0
  then show ?case by (subst str_nat.simps) simp
next
  case (Suc k)
  have ge: "\<not> n < 10"
  proof -
    have "(10::nat) ^ Suc k \<ge> 10" by simp
    with Suc.prems show ?thesis by linarith
  qed
  from Suc.prems have "10 ^ k \<le> n div 10" "n div 10 < 10 ^ Suc k"
    by auto
  then have "length (str_nat (n div 10)) = Suc k" by (rule Suc.IH)
  with ge show ?case by (subst str_nat.simps) simp
qed

text \<open>What \<^verbatim>\<open>f"{r}"\<close> is for a result \<open>r\<close> of \<^verbatim>\<open>random.randint(100000, 999999)\<close>.\<close>

lemma randint_bounds: "a \<le> b \<Longrightarrow> a \<le> randint a b u \<and> randint a b u \<le> b"
proof -
  assume "a \<le> b"
  then have m: "0 < b - a + 1" by simp
  from m have "0 \<le> (u - a) mod (b - a + 1)" by (rule pos_mod_sign)
  moreover from m have "(u - a) mod (b - a + 1) < b - a + 1" by (rule pos_mod_bound)
  ultimately show ?thesis by (simp add: randint_def)
qed

lemma randint_in_range [simp]: "a \<le> u \<Longrightarrow> u \<le> b \<Longrightarrow> randint a b u = u"
  by (simp add: randint_def)

lemma format_int_six_digits:
  assumes "100000 \<le> r" and "r \<le> 999999"
  shows "length (format_int r) = 6" and "set (format_int r) \<subseteq> set digits"
    and "hd (format_int r) \<noteq> CHR ''0''" and "int (int_str (format_int r)) = r"
proof -
  note r = assms
  then have f: "format_int r = str_nat (nat r)" by (simp add: format_int_def)
  from r have "10 ^ 5 \<le> nat r" "nat r < 10 ^ Suc 5" by simp_all
  then have "length (str_nat (nat r)) = Suc 5" by (rule length_str_nat)
  with f show "length (format_int r) = 6" by simp
  from f show "set (format_int r) \<subseteq> set digits" by (simp add: str_nat_digits)
  from r have "0 < nat r" by simp
  with f show "hd (format_int r) \<noteq> CHR ''0''" by (simp add: hd_str_nat)
  from f r show "int (int_str (format_int r)) = r" by (simp add: int_str_str_nat)
qed

subsection \<open>The store operations\<close>

lemma find_one_Some: "find_one q ds = Some d \<Longrightarrow> d \<in> set ds \<and> q d"
  by (auto simp: find_one_def find_Some_iff)

lemma find_one_None: "find_one q ds = None \<longleftrightarrow> (\<forall>d\<in>set ds. \<not> q d)"
  by (auto simp: find_one_def find_None_iff)

lemma find_update_hit:
  "find_one q ds = Some d \<Longrightarrow> q (u d) \<Longrightarrow> find_one q (update_one q u ins ds) = Some (u d)"
  by (induction ds) (auto simp: find_one_def split: if_splits)

lemma find_update_miss:
  "find_one q ds = None \<Longrightarrow> q i \<Longrightarrow> find_one q (update_one q u (Some i) ds) = Some i"
  by (induction ds) (auto simp: find_one_def split: if_splits)

lemma update_one_hit_nth:
  "find_one q ds = Some d \<Longrightarrow>
   \<exists>k<length ds. ds ! k = d \<and> update_one q u ins ds = ds[k := u d]"
proof (induction ds)
  case Nil
  then show ?case by (simp add: find_one_def)
next
  case (Cons a ds)
  show ?case
  proof (cases "q a")
    case True
    with Cons.prems have "a = d" by (simp add: find_one_def)
    with True have "(a # ds) ! 0 = d \<and> update_one q u ins (a # ds) = (a # ds)[0 := u d]" by simp
    then show ?thesis by blast
  next
    case False
    with Cons.prems have "find_one q ds = Some d" by (simp add: find_one_def)
    from Cons.IH [OF this] obtain k where "k < length ds" "ds ! k = d" "update_one q u ins ds = ds[k := u d]"
      by blast
    with False have "Suc k < length (a # ds) \<and> (a # ds) ! Suc k = d \<and> update_one q u ins (a # ds) = (a # ds)[Suc k := u d]"
      by simp
    then show ?thesis by blast
  qed
qed

lemma update_one_miss:
  "find_one q ds = None \<Longrightarrow> update_one q u ins ds = ds @ (case ins of None \<Rightarrow> [] | Some i \<Rightarrow> [i])"
  by (induction ds) (auto simp: find_one_def split: if_splits)

lemma set_update_one:
  "d' \<in> set (update_one q u ins ds) \<Longrightarrow> d' \<in> set ds \<or> (\<exists>d\<in>set ds. d' = u d) \<or> ins = Some d'"
  by (induction ds) (auto split: if_splits option.splits)

lemma update_one_all:
  "\<forall>d\<in>set ds. P d \<Longrightarrow> \<forall>d. P (u d) \<Longrightarrow> (\<And>i. ins = Some i \<Longrightarrow> P i) \<Longrightarrow> \<forall>d\<in>set (update_one q u ins ds). P d"
  using set_update_one by blast

subsection \<open>What \<^verbatim>\<open>start_otp\<close> writes\<close>

lemma start_otp_Some:
  "start_otp (Some auth) env req =
     (Inr \<lparr>start_ok = True, demo_otp = format_int (randint 100000 999999 (rand env)), expires_in_sec = 300\<rparr>,
      Some (update_one (by_phone (strip (start_phone req)))
        (set_payload (strip (start_name req)) (strip (start_phone req)) (format_int (randint 100000 999999 (rand env)))
           (now_expires env + timedelta_minutes 5) (now_updated env))
        (Some (inserted_doc (new_id env) (strip (start_name req)) (strip (start_phone req))
           (format_int (randint 100000 999999 (rand env))) (now_expires env + timedelta_minutes 5) (now_updated env)
           (now_created env)))
        auth))"
  by (simp add: start_otp_def Let_def)

lemma start_otp_stored:
  "\<exists>d. find_one (by_phone (strip (start_phone req))) (docs (snd (start_otp (Some auth) env req))) = Some d
     \<and> name d = strip (start_name req) \<and> phone d = strip (start_phone req)
     \<and> otp_code d = Some (format_int (randint 100000 999999 (rand env)))
     \<and> otp_expires d = Some (now_expires env + timedelta_minutes 5)
     \<and> verified d = False \<and> updated_at d = now_updated env"
proof (cases "find_one (by_phone (strip (start_phone req))) auth")
  case None
  then show ?thesis
    by (simp add: start_otp_Some docs_def find_update_miss by_phone_def inserted_doc_def)
next
  case (Some d)
  then show ?thesis
    by (simp add: start_otp_Some docs_def find_update_hit by_phone_def set_payload_def)
qed

subsection \<open>The generated code\<close>

text \<open>
  Claim C8. Every code that \<^verbatim>\<open>start_otp\<close> generates, whatever the generator yields, is a
  string of six decimal digits with no leading zero whose integer value is the number drawn
  and lies between 100000 and 999999; the same string is returned as \<^verbatim>\<open>demo_otp\<close>, with
  \<^verbatim>\<open>expires_in_sec\<close> 300, and stored as \<^verbatim>\<open>otp_code\<close> of the document of the phone;
  and every value from 100000 to 999999 is the value of the code that \<^verbatim>\<open>start_otp\<close>
  returns for some outcome of the generator.
\<close>

theorem start_otp_code:
  "(\<exists>otp. fst (start_otp (Some auth) env req)
             = Inr \<lparr>start_ok = True, demo_otp = otp, expires_in_sec = 300\<rparr>
         \<and> map_option otp_code (find_one (by_phone (strip (start_phone req)))
               (docs (snd (start_otp (Some auth) env req)))) = Some (Some otp)
         \<and> length otp = 6 \<and> set otp \<subseteq> set digits \<and> hd otp \<noteq> CHR ''0''
         \<and> 100000 \<le> int_str otp \<and> int_str otp \<le> 999999
         \<and> int (int_str otp) = randint 100000 999999 (rand env)
         \<and> otp = format_int (int (int_str otp)))
   \<and> (\<forall>v. 100000 \<le> v \<and> v \<le> 999999 \<longrightarrow>
         (\<exists>env' otp. fst (start_otp (Some auth) env' req)
                        = Inr \<lparr>start_ok = True, demo_otp = otp, expires_in_sec = 300\<rparr>
                    \<and> int (int_str otp) = v))"
proof -
  let ?r = "randint 100000 999999 (rand env)"
  let ?otp = "format_int ?r"
  have b: "100000 \<le> ?r \<and> ?r \<le> 999999" by (rule randint_bounds) simp
  then have lo: "100000 \<le> ?r" and hi: "?r \<le> 999999" by simp_all
  note six = format_int_six_digits [OF lo hi]
  from lo hi six(4) have range: "100000 \<le> int_str ?otp" "int_str ?otp \<le> 999999"
    by simp_all
  from six(4) have again: "?otp = format_int (int (int_str ?otp))" by simp
  have resp: "fst (start_otp (Some auth) env req) = Inr \<lparr>start_ok = True, demo_otp = ?otp, expires_in_sec = 300\<rparr>"
    by (simp add: start_otp_Some)
  from start_otp_stored [of req auth env]
  have stored: "map_option otp_code (find_one (by_phone (strip (start_phone req))) (docs (snd (start_otp (Some auth) env req)))) = Some (Some ?otp)"
    by auto
  from resp stored six range again
  have first: "\<exists>otp. fst (start_otp (Some auth) env req)
             = Inr \<lparr>start_ok = True, demo_otp = otp, expires_in_sec = 300\<rparr>
         \<and> map_option otp_code (find_one (by_phone (strip (start_phone req)))
               (docs (snd (start_otp (Some auth) env req)))) = Some (Some otp)
         \<and> length otp = 6 \<and> set otp \<subseteq> set digits \<and> hd otp \<noteq> CHR ''0''
         \<and> 100000 \<le> int_str otp \<and> int_str otp \<le> 999999
         \<and> int (int_str otp) = randint 100000 999999 (rand env)
         \<and> otp = format_int (int (int_str otp))" by blast
  have all: "\<exists>env' otp. fst (start_otp (Some auth) env' req)
                        = Inr \<lparr>start_ok = True, demo_otp = otp, expires_in_sec = 300\<rparr>
                    \<and> int (int_str otp) = v" if v: "100000 \<le> v \<and> v \<le> 999999" for v
  proof -
    let ?env = "env\<lparr>rand := v\<rparr>"
    from v have lo: "100000 \<le> v" and hi: "v \<le> 999999" by simp_all
    have "fst (start_otp (Some auth) ?env req)
            = Inr \<lparr>start_ok = True, demo_otp = format_int v, expires_in_sec = 300\<rparr>
          \<and> int (int_str (format_int v)) = v"
      using format_int_six_digits(4) [OF lo hi] lo hi by (simp add: start_otp_Some)
    then show ?thesis by blast
  qed
  from first all show ?thesis by blast
qed

theorem start_otp_code_witness:
  "fst (start_otp (Some [])
         \<lparr>rand = 7, now_expires = 10, now_updated = 11, now_created = 12, new_id = 1\<rparr>
         \<lparr>start_name = ''Alice'', start_phone = ''5551234567''\<rparr>)
       = Inr \<lparr>start_ok = True, demo_otp = ''900007'', expires_in_sec = 300\<rparr>
   \<and> length ''900007'' = 6 \<and> hd ''900007'' \<noteq> CHR ''0''
   \<and> 100000 \<le> int_str ''900007'' \<and> int_str ''900007'' \<le> 999999
   \<and> (100000::int) \<le> 999999
   \<and> (\<exists>env' otp. fst (start_otp (Some []) env' \<lparr>start_name = ''Alice'', start_phone = ''5551234567''\<rparr>)
                    = Inr \<lparr>start_ok = True, demo_otp = otp, expires_in_sec = 300\<rparr>
                \<and> int (int_str otp) = 999999)"
proof -
  let ?env = "\<lparr>rand = 7, now_expires = 10, now_updated = 11, now_created = 12, new_id = 1\<rparr>"
  let ?req = "\<lparr>start_name = ''Alice'', start_phone = ''5551234567''\<rparr>"
  have r: "randint 100000 999999 7 = 900007" by (simp add: randint_def)
  have f: "format_int 900007 = ''900007''"
    by (simp add: format_int_def str_nat.simps digit_char_def digits_def)
  have v: "(100000::int) \<le> 999999 \<and> (999999::int) \<le> 999999" by simp
  note t = start_otp_code [of "[]" ?env ?req]
  from t v have a: "\<exists>env' otp. fst (start_otp (Some []) env' ?req)
                    = Inr \<lparr>start_ok = True, demo_otp = otp, expires_in_sec = 300\<rparr>
                \<and> int (int_str otp) = 999999" by blast
  have resp: "fst (start_otp (Some []) ?env ?req)
       = Inr \<lparr>start_ok = True, demo_otp = ''900007'', expires_in_sec = 300\<rparr>"
    by (simp add: start_otp_Some r f)
  from t obtain otp where o: "fst (start_otp (Some []) ?env ?req)
             = Inr \<lparr>start_ok = True, demo_otp = otp, expires_in_sec = 300\<rparr>"
      "length otp = 6" "hd otp \<noteq> CHR ''0''" "100000 \<le> int_str otp" "int_str otp \<le> 999999"
    by blast
  from o(1) resp have "otp = ''900007''" by simp
  with o have b: "length ''900007'' = 6 \<and> hd ''900007'' \<noteq> CHR ''0''
      \<and> 100000 \<le> int_str ''900007'' \<and> int_str ''900007'' \<le> 999999" by blast
  from resp a b v show ?thesis by blast
qed

subsection \<open>The checks of \<^verbatim>\<open>verify_otp\<close>\<close>

lemma find_one_by_phone_None: "find_one (by_phone p) ds = None \<longleftrightarrow> (\<forall>d\<in>set ds. phone d \<noteq> p)"
  by (simp add: find_one_None by_phone_def)

text \<open>
  Claim C6. For a document that holds a code and an expiry, \<^verbatim>\<open>verify_otp\<close> fails with
  status 400 and detail \<^verbatim>\<open>OTP expired\<close> exactly when the current time is strictly after
  the stored \<^verbatim>\<open>otp_expires\<close>; when the current time equals \<^verbatim>\<open>otp_expires\<close> the
  expiry check passes and the outcome is that of the comparison of the codes.
\<close>

theorem verify_otp_expired_iff:
  assumes "find_one (by_phone (verify_phone req)) auth = Some record"
    and "otp_code record = Some c" and "c \<noteq> []" and "otp_expires record = Some e"
  shows "(fst (verify_otp (Some auth) now req) = Inl (HTTPException 400 ''OTP expired'') \<longleftrightarrow> e < now)
       \<and> (now = e \<longrightarrow> fst (verify_otp (Some auth) now req) =
             (if verify_otp_code req \<noteq> c then Inl (HTTPException 400 ''Invalid OTP'')
              else Inr \<lparr>verify_ok = True, resp_verified = True\<rparr>))"
  using assms by (simp add: verify_otp_def truthy_str_def truthy_datetime_def)

theorem verify_otp_expired_iff_witness:
  "find_one (by_phone (verify_phone \<lparr>verify_phone = ''5551234567'', verify_otp_code = ''123456''\<rparr>))
     [\<lparr>doc_id = 1, name = ''Alice'', phone = ''5551234567'', otp_code = Some ''123456'',
       otp_expires = Some 300000010, verified = False, created_at = 12, updated_at = 11\<rparr>]
   = Some \<lparr>doc_id = 1, name = ''Alice'', phone = ''5551234567'', otp_code = Some ''123456'',
       otp_expires = Some 300000010, verified = False, created_at = 12, updated_at = 11\<rparr>
   \<and> ''123456'' \<noteq> []
   \<and> (fst (verify_otp (Some [\<lparr>doc_id = 1, name = ''Alice'', phone = ''5551234567'', otp_code = Some ''123456'',
       otp_expires = Some 300000010, verified = False, created_at = 12, updated_at = 11\<rparr>]) 300000011
         \<lparr>verify_phone = ''5551234567'', verify_otp_code = ''123456''\<rparr>)
        = Inl (HTTPException 400 ''OTP expired''))
   \<and> (fst (verify_otp (Some [\<lparr>doc_id = 1, name = ''Alice'', phone = ''5551234567'', otp_code = Some ''123456'',
       otp_expires = Some 300000010, verified = False, created_at = 12, updated_at = 11\<rparr>]) 300000010
         \<lparr>verify_phone = ''5551234567'', verify_otp_code = ''123456''\<rparr>)
        = Inr \<lparr>verify_ok = True, resp_verified = True\<rparr>)"
proof -
  let ?d = "\<lparr>doc_id = 1, name = ''Alice'', phone = ''5551234567'', otp_code = Some ''123456'',
       otp_expires = Some 300000010, verified = False, created_at = 12, updated_at = 11\<rparr>"
  let ?req = "\<lparr>verify_phone = ''5551234567'', verify_otp_code = ''123456''\<rparr>"
  have f: "find_one (by_phone (verify_phone ?req)) [?d] = Some ?d"
    by (simp add: find_one_def by_phone_def)
  have c: "otp_code ?d = Some ''123456''" and n: "''123456'' \<noteq> []"
    and e: "otp_expires ?d = Some 300000010" by simp_all
  from verify_otp_expired_iff [OF f c n e, of 300000011]
  have a: "fst (verify_otp (Some [?d]) 300000011 ?req) = Inl (HTTPException 400 ''OTP expired'')" by simp
  from verify_otp_expired_iff [OF f c n e, of 300000010]
  have b: "fst (verify_otp (Some [?d]) 300000010 ?req) = Inr \<lparr>verify_ok = True, resp_verified = True\<rparr>" by simp
  from f n a b show ?thesis by blast
qed

text \<open>
  Claim C7. When no document of the collection has the phone of the request,
  \<^verbatim>\<open>verify_otp\<close> fails with status 404 and the collection is returned as it was.
\<close>

theorem verify_otp_not_found:
  assumes "\<forall>d\<in>set auth. phone d \<noteq> verify_phone req"
  shows "verify_otp (Some auth) now req
           = (Inl (HTTPException 404 ''Start verification first''), Some auth)"
proof -
  from assms have "find_one (by_phone (verify_phone req)) auth = None"
    by (simp add: find_one_by_phone_None)
  then show ?thesis by (simp add: verify_otp_def)
qed

theorem verify_otp_not_found_witness:
  "phone \<lparr>doc_id = 1, name = ''Alice'', phone = ''5551234567'', otp_code = Some ''123456'',
       otp_expires = Some 300000010, verified = False, created_at = 12, updated_at = 11\<rparr>
      \<noteq> verify_phone \<lparr>verify_phone = ''5559876543'', verify_otp_code = ''123456''\<rparr>
   \<and> verify_otp (Some [\<lparr>doc_id = 1, name = ''Alice'', phone = ''5551234567'', otp_code = Some ''123456'',
       otp_expires = Some 300000010, verified = False, created_at = 12, updated_at = 11\<rparr>]) 20
        \<lparr>verify_phone = ''5559876543'', verify_otp_code = ''123456''\<rparr>
     = (Inl (HTTPException 404 ''Start verification first''),
        Some [\<lparr>doc_id = 1, name = ''Alice'', phone = ''5551234567'', otp_code = Some ''123456'',
       otp_expires = Some 300000010, verified = False, created_at = 12, updated_at = 11\<rparr>])"
proof -
  let ?d = "\<lparr>doc_id = 1, name = ''Alice'', phone = ''5551234567'', otp_code = Some ''123456'',
       otp_expires = Some 300000010, verified = False, created_at = 12, updated_at = 11\<rparr>"
  let ?req = "\<lparr>verify_phone = ''5559876543'', verify_otp_code = ''123456''\<rparr>"
  have h0: "phone ?d \<noteq> verify_phone ?req" by simp
  then have h: "\<forall>d\<in>set [?d]. phone d \<noteq> verify_phone ?req" by simp
  from h0 verify_otp_not_found [OF h, of 20] show ?thesis by blast
qed

text \<open>
  Claim C10. Whenever \<^verbatim>\<open>verify_otp\<close> raises (404, 400 for a missing, an expired or a
  wrong code, and also 500), the database after the call is the database before it.
\<close>

theorem verify_otp_error_no_write:
  assumes "fst (verify_otp db now req) = Inl err"
  shows "snd (verify_otp db now req) = db"
  using assms
  by (auto simp: verify_otp_def split: option.splits if_splits)

theorem verify_otp_error_no_write_witness:
  "fst (verify_otp (Some [\<lparr>doc_id = 1, name = ''Alice'', phone = ''5551234567'', otp_code = Some ''123456'',
       otp_expires = Some 300000010, verified = True, created_at = 12, updated_at = 11\<rparr>]) 20
        \<lparr>verify_phone = ''5551234567'', verify_otp_code = ''654321''\<rparr>)
     = Inl (HTTPException 400 ''Invalid OTP'')
   \<and> snd (verify_otp (Some [\<lparr>doc_id = 1, name = ''Alice'', phone = ''5551234567'', otp_code = Some ''123456'',
       otp_expires = Some 300000010, verified = True, created_at = 12, updated_at = 11\<rparr>]) 20
        \<lparr>verify_phone = ''5551234567'', verify_otp_code = ''654321''\<rparr>)
     = Some [\<lparr>doc_id = 1, name = ''Alice'', phone = ''5551234567'', otp_code = Some ''123456'',
       otp_expires = Some 300000010, verified = True, created_at = 12, updated_at = 11\<rparr>]"
proof -
  let ?d = "\<lparr>doc_id = 1, name = ''Alice'', phone = ''5551234567'', otp_code = Some ''123456'',
       otp_expires = Some 300000010, verified = True, created_at = 12, updated_at = 11\<rparr>"
  let ?req = "\<lparr>verify_phone = ''5551234567'', verify_otp_code = ''654321''\<rparr>"
  have h: "fst (verify_otp (Some [?d]) 20 ?req) = Inl (HTTPException 400 ''Invalid OTP'')"
    by (simp add: verify_otp_def find_one_def by_phone_def truthy_str_def truthy_datetime_def)
  from h verify_otp_error_no_write [OF h] show ?thesis by blast
qed

subsection \<open>What the two handlers do to the documents\<close>

lemma docs_simps [simp]: "docs None = []" "docs (Some auth) = auth"
  by (simp_all add: docs_def)

lemma start_otp_None: "start_otp None env req = (Inl (HTTPException 500 ''Database not available''), None)"
  by (simp add: start_otp_def)

lemma start_otp_all:
  assumes "\<forall>d\<in>set (docs db). P d"
    and "\<And>nm ph otp e u d. P d \<Longrightarrow> P (set_payload nm ph otp e u d)"
    and "\<And>i nm ph otp e u c. P (inserted_doc i nm ph otp e u c)"
  shows "\<forall>d\<in>set (docs (snd (start_otp db env req))). P d"
proof (cases db)
  case None
  then show ?thesis by (simp add: start_otp_None)
next
  case (Some auth)
  show ?thesis
  proof
    fix d assume "d \<in> set (docs (snd (start_otp db env req)))"
    with Some have "d \<in> set (update_one (by_phone (strip (start_phone req)))
        (set_payload (strip (start_name req)) (strip (start_phone req)) (format_int (randint 100000 999999 (rand env)))
           (now_expires env + timedelta_minutes 5) (now_updated env))
        (Some (inserted_doc (new_id env) (strip (start_name req)) (strip (start_phone req))
           (format_int (randint 100000 999999 (rand env))) (now_expires env + timedelta_minutes 5) (now_updated env)
           (now_created env))) auth)"
      by (simp add: start_otp_Some)
    from set_update_one [OF this] assms Some show "P d" by auto
  qed
qed

lemma verify_otp_snd:
  "snd (verify_otp db now req) = db \<or>
   (\<exists>auth i. db = Some auth \<and> snd (verify_otp db now req) = Some (update_one (by_id i) mark_verified None auth))"
  by (auto simp: verify_otp_def split: option.splits)

lemma verify_otp_all:
  assumes "\<forall>d\<in>set (docs db). P d" and "\<And>d. P d \<Longrightarrow> P (mark_verified d)"
  shows "\<forall>d\<in>set (docs (snd (verify_otp db now req))). P d"
proof
  fix d assume d: "d \<in> set (docs (snd (verify_otp db now req)))"
  from verify_otp_snd [of db now req] show "P d"
  proof
    assume "snd (verify_otp db now req) = db"
    with d assms(1) show ?thesis by simp
  next
    assume "\<exists>auth i. db = Some auth \<and> snd (verify_otp db now req) = Some (update_one (by_id i) mark_verified None auth)"
    then obtain auth i where a: "db = Some auth"
      and s: "snd (verify_otp db now req) = Some (update_one (by_id i) mark_verified None auth)" by blast
    from d s have "d \<in> set (update_one (by_id i) mark_verified None auth)" by simp
    from set_update_one [OF this] a assms show ?thesis by auto
  qed
qed

lemma run_all:
  assumes "\<And>db env req. \<forall>d\<in>set (docs db). P d \<Longrightarrow> \<forall>d\<in>set (docs (snd (start_otp db env req))). P d"
    and "\<And>db now req. \<forall>d\<in>set (docs db). P d \<Longrightarrow> \<forall>d\<in>set (docs (snd (verify_otp db now req))). P d"
  shows "\<forall>d\<in>set (docs db). P d \<Longrightarrow> \<forall>d\<in>set (docs (run db cs)). P d"
proof (induction cs arbitrary: db)
  case Nil
  then show ?case by (simp add: run_def)
next
  case (Cons c cs)
  have "\<forall>d\<in>set (docs (handle db c)). P d"
  proof (cases c)
    case (Start env req)
    have "\<forall>d\<in>set (docs (snd (start_otp db env req))). P d"
      using Cons.prems by (rule assms(1))
    with Start show ?thesis by simp
  next
    case (Verify now req)
    have "\<forall>d\<in>set (docs (snd (verify_otp db now req))). P d"
      using Cons.prems by (rule assms(2))
    with Verify show ?thesis by simp
  qed
  from Cons.IH [OF this] show ?case by (simp add: run_def)
qed

lemma verified_clear_start:
  "\<forall>d\<in>set (docs db). verified_clear d \<Longrightarrow> \<forall>d\<in>set (docs (snd (start_otp db env req))). verified_clear d"
  by (rule start_otp_all) (simp_all add: verified_clear_def set_payload_def inserted_doc_def)

lemma verified_clear_verify:
  "\<forall>d\<in>set (docs db). verified_clear d \<Longrightarrow> \<forall>d\<in>set (docs (snd (verify_otp db now req))). verified_clear d"
  by (rule verify_otp_all) (simp_all add: verified_clear_def mark_verified_def)

lemma otp_pair_start:
  "\<forall>d\<in>set (docs db). otp_pair d \<Longrightarrow> \<forall>d\<in>set (docs (snd (start_otp db env req))). otp_pair d"
  by (rule start_otp_all) (simp_all add: otp_pair_def set_payload_def inserted_doc_def)

lemma otp_pair_verify:
  "\<forall>d\<in>set (docs db). otp_pair d \<Longrightarrow> \<forall>d\<in>set (docs (snd (verify_otp db now req))). otp_pair d"
  by (rule verify_otp_all) (simp_all add: otp_pair_def mark_verified_def)

lemma find_one_Nil: "find_one q [] = None"
  by (simp add: find_one_def)

lemma find_one_Cons: "find_one q (a # ds) = (if q a then Some a else find_one q ds)"
  by (simp add: find_one_def)

lemma find_after_mark_verified:
  "unique_ids ds \<Longrightarrow> find_one (by_phone p) ds = Some r \<Longrightarrow>
   find_one (by_phone p) (update_one (by_id (doc_id r)) mark_verified None ds) = Some (mark_verified r)"
proof (induction ds)
  case Nil
  then show ?case by (simp add: find_one_Nil)
next
  case (Cons a ds)
  show ?case
  proof (cases "by_phone p a")
    case True
    with Cons.prems have "r = a" by (simp add: find_one_Cons)
    moreover have "by_id (doc_id a) a" by (simp add: by_id_def)
    moreover from True have "by_phone p (mark_verified a)" by (simp add: by_phone_def mark_verified_def)
    ultimately show ?thesis by (simp add: find_one_Cons)
  next
    case False
    with Cons.prems have f: "find_one (by_phone p) ds = Some r" by (simp add: find_one_Cons)
    then have "r \<in> set ds" by (simp add: find_one_Some)
    with Cons.prems(1) have ne: "\<not> by_id (doc_id r) a" by (auto simp: unique_ids_def by_id_def)
    from Cons.prems(1) have "unique_ids ds" by (simp add: unique_ids_def)
    from Cons.IH [OF this f] False ne show ?thesis
      by (simp add: find_one_Cons)
  qed
qed

lemma verify_otp_success:
  assumes "fst (verify_otp db now req) = Inr ok"
  shows "\<exists>auth r c e. db = Some auth \<and> find_one (by_phone (verify_phone req)) auth = Some r
           \<and> otp_code r = Some c \<and> c \<noteq> [] \<and> otp_expires r = Some e \<and> now \<le> e \<and> verify_otp_code req = c
           \<and> ok = \<lparr>verify_ok = True, resp_verified = True\<rparr>
           \<and> snd (verify_otp db now req) = Some (update_one (by_id (doc_id r)) mark_verified None auth)"
proof (cases db)
  case None
  with assms show ?thesis by (simp add: verify_otp_def)
next
  case (Some auth)
  show ?thesis
  proof (cases "find_one (by_phone (verify_phone req)) auth")
    case None
    with Some assms show ?thesis by (simp add: verify_otp_def)
  next
    case r: (Some r)
    from Some r assms have t: "truthy_str (otp_code r)" "truthy_datetime (otp_expires r)"
      by (auto simp: verify_otp_def split: if_splits)
    then obtain c e where c: "otp_code r = Some c" "c \<noteq> []" and e: "otp_expires r = Some e"
      by (auto simp: truthy_str_def truthy_datetime_def split: option.splits)
    from Some r assms c e have "now \<le> e" "verify_otp_code req = c"
      "ok = \<lparr>verify_ok = True, resp_verified = True\<rparr>"
      "snd (verify_otp db now req) = Some (update_one (by_id (doc_id r)) mark_verified None auth)"
      by (auto simp: verify_otp_def truthy_str_def truthy_datetime_def split: if_splits)
    with Some r c e show ?thesis by blast
  qed
qed

lemma verify_otp_success_record:
  assumes "fst (verify_otp db now req) = Inr ok" and "unique_ids (docs db)"
  shows "\<exists>r. find_one (by_phone (verify_phone req)) (docs db) = Some r \<and>
           find_one (by_phone (verify_phone req)) (docs (snd (verify_otp db now req))) = Some (mark_verified r)"
proof -
  from verify_otp_success [OF assms(1)] obtain auth r where a: "db = Some auth"
    and f: "find_one (by_phone (verify_phone req)) auth = Some r"
    and s: "snd (verify_otp db now req) = Some (update_one (by_id (doc_id r)) mark_verified None auth)"
    by blast
  from assms(2) a have "unique_ids auth" by simp
  from find_after_mark_verified [OF this f] a f s show ?thesis by simp
qed

subsection \<open>The invariants of the data model\<close>

text \<open>
  Claim C3. In every collection reached from the empty one by any sequence of calls of
  \<^verbatim>\<open>start_otp\<close> and \<^verbatim>\<open>verify_otp\<close>, a document with \<^verbatim>\<open>verified\<close> true has neither
  \<^verbatim>\<open>otp_code\<close> nor \<^verbatim>\<open>otp_expires\<close>; and each of the two handlers preserves this, from
  any database where it holds. (\<^verbatim>\<open>start_otp\<close> writes \<^verbatim>\<open>verified\<close> false with the new
  code; \<^verbatim>\<open>verify_otp\<close> removes both fields when it sets \<^verbatim>\<open>verified\<close>.)
\<close>

theorem verified_clear_invariant:
  "(\<forall>d\<in>set (docs (run (Some []) cs)). verified_clear d)
   \<and> ((\<forall>d\<in>set (docs db). verified_clear d) \<longrightarrow>
        (\<forall>d\<in>set (docs (snd (start_otp db env req))). verified_clear d)
      \<and> (\<forall>d\<in>set (docs (snd (verify_otp db now vreq))). verified_clear d))"
proof -
  have "\<forall>d\<in>set (docs (Some [])). verified_clear d" by simp
  then have "\<forall>d\<in>set (docs (run (Some []) cs)). verified_clear d"
    by (rule run_all [rotated 2]) (rule verified_clear_start, assumption, rule verified_clear_verify, assumption)
  with verified_clear_start [of db env req] verified_clear_verify [of db now vreq]
  show ?thesis by blast
qed

theorem verified_clear_invariant_witness:
  "docs (run (Some [])
     [Start \<lparr>rand = 123456, now_expires = 10, now_updated = 11, now_created = 12, new_id = 1\<rparr>
            \<lparr>start_name = ''Alice'', start_phone = ''5551234567''\<rparr>,
      Verify 20 \<lparr>verify_phone = ''5551234567'', verify_otp_code = ''123456''\<rparr>])
   = [\<lparr>doc_id = 1, name = ''Alice'', phone = ''5551234567'', otp_code = None,
       otp_expires = None, verified = True, created_at = 12, updated_at = 11\<rparr>]
   \<and> verified_clear \<lparr>doc_id = 1, name = ''Alice'', phone = ''5551234567'', otp_code = None,
       otp_expires = None, verified = True, created_at = 12, updated_at = 11\<rparr>
   \<and> verified \<lparr>doc_id = 1, name = ''Alice'', phone = ''5551234567'', otp_code = None,
       otp_expires = None, verified = True, created_at = 12, updated_at = 11\<rparr>
   \<and> list_all verified_clear (docs (snd (start_otp (Some [\<lparr>doc_id = 1, name = ''Alice'', phone = ''5551234567'', otp_code = None,
       otp_expires = None, verified = True, created_at = 12, updated_at = 11\<rparr>])
         \<lparr>rand = 654321, now_expires = 30, now_updated = 31, now_created = 32, new_id = 2\<rparr>
         \<lparr>start_name = ''Alice'', start_phone = ''5551234567''\<rparr>)))"
proof -
  let ?cs = "[Start \<lparr>rand = 123456, now_expires = 10, now_updated = 11, now_created = 12, new_id = 1\<rparr>
            \<lparr>start_name = ''Alice'', start_phone = ''5551234567''\<rparr>,
      Verify 20 \<lparr>verify_phone = ''5551234567'', verify_otp_code = ''123456''\<rparr>]"
  let ?d = "\<lparr>doc_id = 1, name = ''Alice'', phone = ''5551234567'', otp_code = None,
       otp_expires = None, verified = True, created_at = 12, updated_at = 11\<rparr>"
  let ?env = "\<lparr>rand = 654321, now_expires = 30, now_updated = 31, now_created = 32, new_id = 2\<rparr>"
  let ?req = "\<lparr>start_name = ''Alice'', start_phone = ''5551234567''\<rparr>"
  have s: "strip ''Alice'' = ''Alice''" "strip ''5551234567'' = ''5551234567''"
    by (simp_all add: strip_def lstrip_def rstrip_def isspace_def whitespace_def)
  have f: "format_int 123456 = ''123456''"
    by (simp add: format_int_def str_nat.simps digit_char_def digits_def)
  have r: "docs (run (Some []) ?cs) = [?d]"
    by (simp add: run_def start_otp_Some s f inserted_doc_def verify_otp_def find_one_Cons
        by_phone_def by_id_def truthy_str_def truthy_datetime_def timedelta_minutes_def mark_verified_def)
  note t = verified_clear_invariant [of ?cs "Some [?d]" ?env ?req 20 "\<lparr>verify_phone = ''5551234567'', verify_otp_code = ''123456''\<rparr>"]
  from t r have a: "verified_clear ?d" by simp
  have h: "\<forall>d\<in>set (docs (Some [?d])). verified_clear d" using a by simp
  from t h have "\<forall>d\<in>set (docs (snd (start_otp (Some [?d]) ?env ?req))). verified_clear d" by blast
  then have b: "list_all verified_clear (docs (snd (start_otp (Some [?d]) ?env ?req)))"
    by (simp only: list_all_iff)
  have v: "verified ?d" by simp
  from r a v b show ?thesis by blast
qed

text \<open>
  Claim C4. Both handlers preserve that \<^verbatim>\<open>otp_code\<close> and \<^verbatim>\<open>otp_expires\<close> are both
  present or both absent in every document: after \<^verbatim>\<open>start_otp\<close> the document of the phone
  has both, and after a successful \<^verbatim>\<open>verify_otp\<close> (identifiers being unique) the document
  of the phone has neither.
\<close>

theorem otp_pair_preserved:
  assumes "\<forall>d\<in>set (docs db). otp_pair d"
  shows "(\<forall>d\<in>set (docs (snd (start_otp db env req))). otp_pair d)
       \<and> (\<forall>d\<in>set (docs (snd (verify_otp db now vreq))). otp_pair d)
       \<and> (db \<noteq> None \<longrightarrow>
            (\<exists>d. find_one (by_phone (strip (start_phone req))) (docs (snd (start_otp db env req))) = Some d
               \<and> otp_code d \<noteq> None \<and> otp_expires d \<noteq> None))
       \<and> (unique_ids (docs db) \<and> fst (verify_otp db now vreq) = Inr \<lparr>verify_ok = True, resp_verified = True\<rparr> \<longrightarrow>
            (\<exists>d. find_one (by_phone (verify_phone vreq)) (docs (snd (verify_otp db now vreq))) = Some d
               \<and> otp_code d = None \<and> otp_expires d = None))"
proof -
  have a: "\<forall>d\<in>set (docs (snd (start_otp db env req))). otp_pair d"
    using assms by (rule otp_pair_start)
  have b: "\<forall>d\<in>set (docs (snd (verify_otp db now vreq))). otp_pair d"
    using assms by (rule otp_pair_verify)
  have c: "\<exists>d. find_one (by_phone (strip (start_phone req))) (docs (snd (start_otp db env req))) = Some d
               \<and> otp_code d \<noteq> None \<and> otp_expires d \<noteq> None" if "db \<noteq> None"
  proof -
    from that obtain auth where "db = Some auth" by blast
    with start_otp_stored [of req auth env] show ?thesis by auto
  qed
  have d: "\<exists>d. find_one (by_phone (verify_phone vreq)) (docs (snd (verify_otp db now vreq))) = Some d
               \<and> otp_code d = None \<and> otp_expires d = None"
    if "unique_ids (docs db)" "fst (verify_otp db now vreq) = Inr \<lparr>verify_ok = True, resp_verified = True\<rparr>"
  proof -
    from verify_otp_success_record [OF that(2) that(1)] obtain r where
      "find_one (by_phone (verify_phone vreq)) (docs (snd (verify_otp db now vreq))) = Some (mark_verified r)"
      by blast
    moreover have "otp_code (mark_verified r) = None \<and> otp_expires (mark_verified r) = None"
      by (simp add: mark_verified_def)
    ultimately show ?thesis by blast
  qed
  from a b c d show ?thesis by blast
qed

theorem otp_pair_preserved_witness:
  "otp_pair \<lparr>doc_id = 1, name = ''Alice'', phone = ''5551234567'', otp_code = Some ''123456'',
       otp_expires = Some 300000010, verified = False, created_at = 12, updated_at = 11\<rparr>
   \<and> Some [\<lparr>doc_id = 1, name = ''Alice'', phone = ''5551234567'', otp_code = Some ''123456'',
       otp_expires = Some 300000010, verified = False, created_at = 12, updated_at = 11\<rparr>] \<noteq> None
   \<and> unique_ids (docs (Some [\<lparr>doc_id = 1, name = ''Alice'', phone = ''5551234567'', otp_code = Some ''123456'',
       otp_expires = Some 300000010, verified = False, created_at = 12, updated_at = 11\<rparr>]))
   \<and> fst (verify_otp (Some [\<lparr>doc_id = 1, name = ''Alice'', phone = ''5551234567'', otp_code = Some ''123456'',
       otp_expires = Some 300000010, verified = False, created_at = 12, updated_at = 11\<rparr>]) 20
         \<lparr>verify_phone = ''5551234567'', verify_otp_code = ''123456''\<rparr>)
       = Inr \<lparr>verify_ok = True, resp_verified = True\<rparr>
   \<and> list_all otp_pair (docs (snd (start_otp (Some [\<lparr>doc_id = 1, name = ''Alice'', phone = ''5551234567'', otp_code = Some ''123456'',
       otp_expires = Some 300000010, verified = False, created_at = 12, updated_at = 11\<rparr>])
         \<lparr>rand = 654321, now_expires = 30, now_updated = 31, now_created = 32, new_id = 2\<rparr>
         \<lparr>start_name = ''Bob'', start_phone = ''5559876543''\<rparr>)))
   \<and> (\<exists>d. find_one (by_phone (verify_phone \<lparr>verify_phone = ''5551234567'', verify_otp_code = ''123456''\<rparr>))
         (docs (snd (verify_otp (Some [\<lparr>doc_id = 1, name = ''Alice'', phone = ''5551234567'', otp_code = Some ''123456'',
       otp_expires = Some 300000010, verified = False, created_at = 12, updated_at = 11\<rparr>]) 20
         \<lparr>verify_phone = ''5551234567'', verify_otp_code = ''123456''\<rparr>))) = Some d
       \<and> otp_code d = None \<and> otp_expires d = None)"
proof -
  let ?d = "\<lparr>doc_id = 1, name = ''Alice'', phone = ''5551234567'', otp_code = Some ''123456'',
       otp_expires = Some 300000010, verified = False, created_at = 12, updated_at = 11\<rparr>"
  let ?env = "\<lparr>rand = 654321, now_expires = 30, now_updated = 31, now_created = 32, new_id = 2\<rparr>"
  let ?req = "\<lparr>start_name = ''Bob'', start_phone = ''5559876543''\<rparr>"
  let ?vreq = "\<lparr>verify_phone = ''5551234567'', verify_otp_code = ''123456''\<rparr>"
  have h0: "otp_pair ?d" by (simp add: otp_pair_def)
  then have h: "\<forall>d\<in>set (docs (Some [?d])). otp_pair d" by simp
  have n: "Some [?d] \<noteq> None" by simp
  have u: "unique_ids (docs (Some [?d]))" by (simp add: unique_ids_def)
  have v: "fst (verify_otp (Some [?d]) 20 ?vreq) = Inr \<lparr>verify_ok = True, resp_verified = True\<rparr>"
    by (simp add: verify_otp_def find_one_Cons by_phone_def truthy_str_def truthy_datetime_def)
  note t = otp_pair_preserved [OF h, of ?env ?req 20 ?vreq]
  from t have "\<forall>d\<in>set (docs (snd (start_otp (Some [?d]) ?env ?req))). otp_pair d" by blast
  then have a: "list_all otp_pair (docs (snd (start_otp (Some [?d]) ?env ?req)))"
    by (simp only: list_all_iff)
  from t u v have b: "\<exists>d. find_one (by_phone (verify_phone ?vreq)) (docs (snd (verify_otp (Some [?d]) 20 ?vreq))) = Some d
       \<and> otp_code d = None \<and> otp_expires d = None" by blast
  from h0 n u v a b show ?thesis by blast
qed

subsection \<open>\<^verbatim>\<open>start_otp\<close> on an existing document\<close>

text \<open>
  Claim C1 says that \<^verbatim>\<open>start_otp\<close> leaves \<^verbatim>\<open>verified\<close> unchanged. The payload of the
  \<^verbatim>\<open>$set\<close> contains \<^verbatim>\<open>"verified": False\<close>: a verified document of the phone is no
  longer verified after the call.
\<close>

theorem start_otp_keeps_verified_counterexample:
  "verified \<lparr>doc_id = 1, name = ''Alice'', phone = ''5551234567'', otp_code = None,
       otp_expires = None, verified = True, created_at = 12, updated_at = 11\<rparr>
   \<and> find_one (by_phone ''5551234567'')
        [\<lparr>doc_id = 1, name = ''Alice'', phone = ''5551234567'', otp_code = None,
          otp_expires = None, verified = True, created_at = 12, updated_at = 11\<rparr>]
      = Some \<lparr>doc_id = 1, name = ''Alice'', phone = ''5551234567'', otp_code = None,
          otp_expires = None, verified = True, created_at = 12, updated_at = 11\<rparr>
   \<and> snd (start_otp
        (Some [\<lparr>doc_id = 1, name = ''Alice'', phone = ''5551234567'', otp_code = None,
          otp_expires = None, verified = True, created_at = 12, updated_at = 11\<rparr>])
        \<lparr>rand = 654321, now_expires = 30, now_updated = 31, now_created = 32, new_id = 2\<rparr>
        \<lparr>start_name = ''Alice'', start_phone = ''5551234567''\<rparr>)
      = Some [\<lparr>doc_id = 1, name = ''Alice'', phone = ''5551234567'', otp_code = Some ''654321'',
          otp_expires = Some 300000030, verified = False, created_at = 12, updated_at = 31\<rparr>]"
proof -
  have s: "strip ''Alice'' = ''Alice''" "strip ''5551234567'' = ''5551234567''"
    by (simp_all add: strip_def lstrip_def rstrip_def isspace_def whitespace_def)
  have f: "format_int 654321 = ''654321''"
    by (simp add: format_int_def str_nat.simps digit_char_def digits_def)
  show ?thesis
    by (simp add: start_otp_Some s f find_one_Cons by_phone_def set_payload_def timedelta_minutes_def)
qed

text \<open>
  Claim C1, as the code has it. When the collection holds a document for the (stripped)
  phone, \<^verbatim>\<open>start_otp\<close> replaces that document, in place, by the same document with
  \<^verbatim>\<open>name\<close>, \<^verbatim>\<open>otp_code\<close>, \<^verbatim>\<open>otp_expires\<close> and \<^verbatim>\<open>updated_at\<close> set and with
  \<^verbatim>\<open>verified\<close> set to false; \<^verbatim>\<open>_id\<close>, \<^verbatim>\<open>phone\<close> and \<^verbatim>\<open>created_at\<close> keep their
  values and no other document changes.
\<close>

theorem start_otp_existing_record:
  assumes "find_one (by_phone (strip (start_phone req))) auth = Some d"
  shows "(let d' = d\<lparr>name := strip (start_name req), otp_code := Some (format_int (randint 100000 999999 (rand env))),
                     otp_expires := Some (now_expires env + timedelta_minutes 5),
                     verified := False, updated_at := now_updated env\<rparr>
          in find_one (by_phone (strip (start_phone req))) (docs (snd (start_otp (Some auth) env req))) = Some d'
           \<and> (\<exists>k<length auth. auth ! k = d \<and> docs (snd (start_otp (Some auth) env req)) = auth[k := d'])
           \<and> verified d' = False \<and> doc_id d' = doc_id d \<and> phone d' = phone d \<and> created_at d' = created_at d)"
proof -
  let ?u = "set_payload (strip (start_name req)) (strip (start_phone req)) (format_int (randint 100000 999999 (rand env)))
           (now_expires env + timedelta_minutes 5) (now_updated env)"
  let ?ins = "Some (inserted_doc (new_id env) (strip (start_name req)) (strip (start_phone req))
           (format_int (randint 100000 999999 (rand env))) (now_expires env + timedelta_minutes 5) (now_updated env)
           (now_created env))"
  let ?d' = "d\<lparr>name := strip (start_name req), otp_code := Some (format_int (randint 100000 999999 (rand env))),
                     otp_expires := Some (now_expires env + timedelta_minutes 5),
                     verified := False, updated_at := now_updated env\<rparr>"
  from assms have ph: "phone d = strip (start_phone req)"
    using find_one_Some [of "by_phone (strip (start_phone req))" auth d] by (simp add: by_phone_def)
  then have u: "?u d = ?d'" by (simp add: set_payload_def)
  have q: "by_phone (strip (start_phone req)) (?u d)" by (simp add: by_phone_def set_payload_def)
  have a: "find_one (by_phone (strip (start_phone req))) (docs (snd (start_otp (Some auth) env req))) = Some ?d'"
    using find_update_hit [where u = ?u and ins = ?ins, OF assms q] u by (simp add: start_otp_Some)
  from update_one_hit_nth [where u = ?u and ins = ?ins, OF assms] u
  have b: "\<exists>k<length auth. auth ! k = d \<and> docs (snd (start_otp (Some auth) env req)) = auth[k := ?d']"
    by (simp add: start_otp_Some)
  from a b ph show ?thesis by (simp add: Let_def)
qed

theorem start_otp_existing_record_witness:
  "find_one (by_phone (strip (start_phone \<lparr>start_name = ''Alicia'', start_phone = ''5551234567''\<rparr>)))
        [\<lparr>doc_id = 1, name = ''Alice'', phone = ''5551234567'', otp_code = None,
          otp_expires = None, verified = True, created_at = 12, updated_at = 11\<rparr>]
      = Some \<lparr>doc_id = 1, name = ''Alice'', phone = ''5551234567'', otp_code = None,
          otp_expires = None, verified = True, created_at = 12, updated_at = 11\<rparr>
   \<and> find_one (by_phone ''5551234567'') (docs (snd (start_otp
        (Some [\<lparr>doc_id = 1, name = ''Alice'', phone = ''5551234567'', otp_code = None,
          otp_expires = None, verified = True, created_at = 12, updated_at = 11\<rparr>])
        \<lparr>rand = 100001, now_expires = 40, now_updated = 41, now_created = 42, new_id = 2\<rparr>
        \<lparr>start_name = ''Alicia'', start_phone = ''5551234567''\<rparr>)))
      = Some \<lparr>doc_id = 1, name = ''Alicia'', phone = ''5551234567'', otp_code = Some ''100001'',
          otp_expires = Some 300000040, verified = False, created_at = 12, updated_at = 41\<rparr>"
proof -
  let ?d = "\<lparr>doc_id = 1, name = ''Alice'', phone = ''5551234567'', otp_code = None,
          otp_expires = None, verified = True, created_at = 12, updated_at = 11\<rparr>"
  let ?env = "\<lparr>rand = 100001, now_expires = 40, now_updated = 41, now_created = 42, new_id = 2\<rparr>"
  let ?req = "\<lparr>start_name = ''Alicia'', start_phone = ''5551234567''\<rparr>"
  have s: "strip ''Alicia'' = ''Alicia''" "strip ''5551234567'' = ''5551234567''"
    by (simp_all add: strip_def lstrip_def rstrip_def isspace_def whitespace_def)
  have f: "format_int 100001 = ''100001''"
    by (simp add: format_int_def str_nat.simps digit_char_def digits_def)
  have h: "find_one (by_phone (strip (start_phone ?req))) [?d] = Some ?d"
    by (simp add: s find_one_Cons by_phone_def)
  from start_otp_existing_record [OF h, of ?env] h show ?thesis
    by (simp add: Let_def s f timedelta_minutes_def find_one_Cons by_phone_def)
qed

subsection \<open>Two consecutive calls of \<^verbatim>\<open>start_otp\<close>\<close>

lemma format_int_nonempty: "format_int i \<noteq> []"
  by (simp add: format_int_def str_nat_nonempty)

lemma verify_otp_pending:
  assumes "find_one (by_phone (verify_phone req)) auth = Some r"
    and "otp_code r = Some c" and "c \<noteq> []" and "otp_expires r = Some e"
  shows "fst (verify_otp (Some auth) now req) =
           (if e < now then Inl (HTTPException 400 ''OTP expired'')
            else if verify_otp_code req \<noteq> c then Inl (HTTPException 400 ''Invalid OTP'')
            else Inr \<lparr>verify_ok = True, resp_verified = True\<rparr>)"
  using assms by (simp add: verify_otp_def truthy_str_def truthy_datetime_def)

text \<open>
  Claim C5 says that after two calls for the same phone the first code is always rejected with
  \<^verbatim>\<open>Invalid OTP\<close>. The two codes are independent draws: when both calls draw 123456, the
  first code is the stored code and \<^verbatim>\<open>verify_otp\<close> accepts it.
\<close>

theorem first_code_rejected_counterexample:
  "fst (start_otp (Some [])
         \<lparr>rand = 123456, now_expires = 10, now_updated = 11, now_created = 12, new_id = 1\<rparr>
         \<lparr>start_name = ''Alice'', start_phone = ''5551234567''\<rparr>)
     = Inr \<lparr>start_ok = True, demo_otp = ''123456'', expires_in_sec = 300\<rparr>
   \<and> fst (start_otp
         (snd (start_otp (Some [])
            \<lparr>rand = 123456, now_expires = 10, now_updated = 11, now_created = 12, new_id = 1\<rparr>
            \<lparr>start_name = ''Alice'', start_phone = ''5551234567''\<rparr>))
         \<lparr>rand = 123456, now_expires = 30, now_updated = 31, now_created = 32, new_id = 2\<rparr>
         \<lparr>start_name = ''Alice'', start_phone = ''5551234567''\<rparr>)
     = Inr \<lparr>start_ok = True, demo_otp = ''123456'', expires_in_sec = 300\<rparr>
   \<and> fst (verify_otp
         (snd (start_otp
            (snd (start_otp (Some [])
               \<lparr>rand = 123456, now_expires = 10, now_updated = 11, now_created = 12, new_id = 1\<rparr>
               \<lparr>start_name = ''Alice'', start_phone = ''5551234567''\<rparr>))
            \<lparr>rand = 123456, now_expires = 30, now_updated = 31, now_created = 32, new_id = 2\<rparr>
            \<lparr>start_name = ''Alice'', start_phone = ''5551234567''\<rparr>))
         50 \<lparr>verify_phone = ''5551234567'', verify_otp_code = ''123456''\<rparr>)
     = Inr \<lparr>verify_ok = True, resp_verified = True\<rparr>"
proof -
  have s: "strip ''Alice'' = ''Alice''" "strip ''5551234567'' = ''5551234567''"
    by (simp_all add: strip_def lstrip_def rstrip_def isspace_def whitespace_def)
  have f: "format_int 123456 = ''123456''"
    by (simp add: format_int_def str_nat.simps digit_char_def digits_def)
  show ?thesis
    by (simp add: start_otp_Some s f find_one_Cons by_phone_def set_payload_def inserted_doc_def
        timedelta_minutes_def verify_otp_def truthy_str_def truthy_datetime_def)
qed

text \<open>
  Claim C5, as the code has it. After two consecutive calls of \<^verbatim>\<open>start_otp\<close> whose phones
  strip to the same \<open>p\<close>, returning the codes \<open>c1\<close> then \<open>c2\<close>, a call of \<^verbatim>\<open>verify_otp\<close>
  for \<open>p\<close> succeeds only with \<open>c2\<close>; up to the expiry of the second call it succeeds with
  \<open>c2\<close>, and with \<open>c1\<close> it fails with status 400 and detail \<^verbatim>\<open>Invalid OTP\<close> whenever
  \<open>c1\<close> differs from \<open>c2\<close>.
\<close>

theorem second_start_invalidates_first:
  assumes "strip (start_phone req1) = p" and "strip (start_phone req2) = p"
  shows "(let db2 = snd (start_otp (snd (start_otp (Some auth) env1 req1)) env2 req2);
              c1 = format_int (randint 100000 999999 (rand env1)); c2 = format_int (randint 100000 999999 (rand env2))
          in fst (start_otp (Some auth) env1 req1)
               = Inr \<lparr>start_ok = True, demo_otp = c1, expires_in_sec = 300\<rparr>
           \<and> fst (start_otp (snd (start_otp (Some auth) env1 req1)) env2 req2)
               = Inr \<lparr>start_ok = True, demo_otp = c2, expires_in_sec = 300\<rparr>
           \<and> (fst (verify_otp db2 now \<lparr>verify_phone = p, verify_otp_code = c\<rparr>)
                 = Inr \<lparr>verify_ok = True, resp_verified = True\<rparr> \<longrightarrow> c = c2)
           \<and> (now \<le> now_expires env2 + timedelta_minutes 5 \<longrightarrow>
                 fst (verify_otp db2 now \<lparr>verify_phone = p, verify_otp_code = c2\<rparr>)
                   = Inr \<lparr>verify_ok = True, resp_verified = True\<rparr>
               \<and> (c1 \<noteq> c2 \<longrightarrow>
                    fst (verify_otp db2 now \<lparr>verify_phone = p, verify_otp_code = c1\<rparr>)
                      = Inl (HTTPException 400 ''Invalid OTP''))))"
proof -
  let ?c1 = "format_int (randint 100000 999999 (rand env1))" and ?c2 = "format_int (randint 100000 999999 (rand env2))"
  let ?e2 = "now_expires env2 + timedelta_minutes 5"
  obtain auth1 where db1: "snd (start_otp (Some auth) env1 req1) = Some auth1"
    by (simp add: start_otp_Some)
  obtain auth2 where db2: "snd (start_otp (Some auth1) env2 req2) = Some auth2"
    by (simp add: start_otp_Some)
  from start_otp_stored [of req2 auth1 env2] assms(2) db2
  obtain d where d: "find_one (by_phone p) auth2 = Some d" "otp_code d = Some ?c2"
    "otp_expires d = Some ?e2" by auto
  have v: "fst (verify_otp (Some auth2) now \<lparr>verify_phone = p, verify_otp_code = x\<rparr>) =
           (if ?e2 < now then Inl (HTTPException 400 ''OTP expired'')
            else if x \<noteq> ?c2 then Inl (HTTPException 400 ''Invalid OTP'')
            else Inr \<lparr>verify_ok = True, resp_verified = True\<rparr>)" for x
    using verify_otp_pending [of "\<lparr>verify_phone = p, verify_otp_code = x\<rparr>" auth2 d ?c2 ?e2 now] d
    by (simp add: format_int_nonempty)
  have r1: "fst (start_otp (Some auth) env1 req1) = Inr \<lparr>start_ok = True, demo_otp = ?c1, expires_in_sec = 300\<rparr>"
    by (simp add: start_otp_Some)
  have r2: "fst (start_otp (Some auth1) env2 req2) = Inr \<lparr>start_ok = True, demo_otp = ?c2, expires_in_sec = 300\<rparr>"
    by (simp add: start_otp_Some)
  have a: "fst (verify_otp (Some auth2) now \<lparr>verify_phone = p, verify_otp_code = c\<rparr>)
                 = Inr \<lparr>verify_ok = True, resp_verified = True\<rparr> \<longrightarrow> c = ?c2"
    by (simp add: v)
  have b: "now \<le> ?e2 \<longrightarrow>
                 fst (verify_otp (Some auth2) now \<lparr>verify_phone = p, verify_otp_code = ?c2\<rparr>)
                   = Inr \<lparr>verify_ok = True, resp_verified = True\<rparr>
               \<and> (?c1 \<noteq> ?c2 \<longrightarrow>
                    fst (verify_otp (Some auth2) now \<lparr>verify_phone = p, verify_otp_code = ?c1\<rparr>)
                      = Inl (HTTPException 400 ''Invalid OTP''))"
    by (simp add: v)
  from r1 r2 a b show ?thesis
    unfolding Let_def db1 db2 by blast
qed

theorem second_start_invalidates_first_witness:
  "strip (start_phone \<lparr>start_name = ''Alice'', start_phone = ''5551234567''\<rparr>) = ''5551234567''
   \<and> (50::int) \<le> now_expires \<lparr>rand = 654321, now_expires = 30, now_updated = 31, now_created = 32, new_id = 2\<rparr>
         + timedelta_minutes 5
   \<and> format_int (randint 100000 999999 (rand \<lparr>rand = 123456, now_expires = 10, now_updated = 11, now_created = 12, new_id = 1\<rparr>))
       \<noteq> format_int (randint 100000 999999 (rand \<lparr>rand = 654321, now_expires = 30, now_updated = 31, now_created = 32, new_id = 2\<rparr>))
   \<and> fst (verify_otp
         (snd (start_otp
            (snd (start_otp (Some [])
               \<lparr>rand = 123456, now_expires = 10, now_updated = 11, now_created = 12, new_id = 1\<rparr>
               \<lparr>start_name = ''Alice'', start_phone = ''5551234567''\<rparr>))
            \<lparr>rand = 654321, now_expires = 30, now_updated = 31, now_created = 32, new_id = 2\<rparr>
            \<lparr>start_name = ''Alice'', start_phone = ''5551234567''\<rparr>))
         50 \<lparr>verify_phone = ''5551234567'', verify_otp_code = ''654321''\<rparr>)
     = Inr \<lparr>verify_ok = True, resp_verified = True\<rparr>
   \<and> fst (verify_otp
         (snd (start_otp
            (snd (start_otp (Some [])
               \<lparr>rand = 123456, now_expires = 10, now_updated = 11, now_created = 12, new_id = 1\<rparr>
               \<lparr>start_name = ''Alice'', start_phone = ''5551234567''\<rparr>))
            \<lparr>rand = 654321, now_expires = 30, now_updated = 31, now_created = 32, new_id = 2\<rparr>
            \<lparr>start_name = ''Alice'', start_phone = ''5551234567''\<rparr>))
         50 \<lparr>verify_phone = ''5551234567'', verify_otp_code = ''123456''\<rparr>)
     = Inl (HTTPException 400 ''Invalid OTP'')"
proof -
  let ?req = "\<lparr>start_name = ''Alice'', start_phone = ''5551234567''\<rparr>"
  let ?e1 = "\<lparr>rand = 123456, now_expires = 10, now_updated = 11, now_created = 12, new_id = 1\<rparr>"
  let ?e2 = "\<lparr>rand = 654321, now_expires = 30, now_updated = 31, now_created = 32, new_id = 2\<rparr>"
  have s: "strip (start_phone ?req) = ''5551234567''"
    by (simp add: strip_def lstrip_def rstrip_def isspace_def whitespace_def)
  have f: "format_int 123456 = ''123456''" "format_int 654321 = ''654321''"
    by (simp_all add: format_int_def str_nat.simps digit_char_def digits_def)
  have t: "(50::int) \<le> now_expires ?e2 + timedelta_minutes 5" by (simp add: timedelta_minutes_def)
  have n: "format_int (randint 100000 999999 (rand ?e1)) \<noteq> format_int (randint 100000 999999 (rand ?e2))" by (simp add: f)
  from second_start_invalidates_first [OF s s, of "[]" ?e1 ?e2 50 "''654321''"] s t n show ?thesis
    by (simp add: Let_def f)
qed

subsection \<open>Phones with surrounding whitespace\<close>

lemma dropWhile_hd_id: "xs = [] \<or> \<not> P (hd xs) \<Longrightarrow> dropWhile P xs = xs"
  by (cases xs) auto

lemma lstrip_hd: "lstrip s = [] \<or> \<not> isspace (hd (lstrip s))"
proof (cases "dropWhile isspace s = []")
  case True
  then show ?thesis by (simp add: lstrip_def)
next
  case False
  then have "\<not> isspace (hd (dropWhile isspace s))" by (rule hd_dropWhile)
  then show ?thesis by (simp add: lstrip_def)
qed

lemma rstrip_prefix: "\<exists>t. s = rstrip s @ t"
proof -
  have "rev (rev s) = rev (takeWhile isspace (rev s) @ dropWhile isspace (rev s))"
    by (simp only: takeWhile_dropWhile_id)
  then have "s = rstrip s @ rev (takeWhile isspace (rev s))"
    by (simp only: rev_append rev_rev_ident rstrip_def)
  then show ?thesis ..
qed

lemma rstrip_idem: "rstrip (rstrip s) = rstrip s"
  by (simp add: rstrip_def)

lemma strip_idem: "strip (strip s) = strip s"
proof -
  let ?t = "lstrip s"
  from rstrip_prefix [of ?t] obtain u where u: "?t = rstrip ?t @ u" ..
  have "rstrip ?t = [] \<or> \<not> isspace (hd (rstrip ?t))"
  proof (cases "rstrip ?t = []")
    case True
    then show ?thesis ..
  next
    case False
    with u have "hd ?t = hd (rstrip ?t)" by (metis hd_append2)
    moreover from False u have "?t \<noteq> []" by auto
    ultimately show ?thesis using lstrip_hd [of s] by simp
  qed
  then have "lstrip (rstrip ?t) = rstrip ?t" unfolding lstrip_def by (rule dropWhile_hd_id)
  then show ?thesis by (simp add: strip_def rstrip_idem)
qed

lemma verify_otp_no_record:
  "find_one (by_phone (verify_phone req)) auth = None \<Longrightarrow>
   verify_otp (Some auth) now req = (Inl (HTTPException 404 ''Start verification first''), Some auth)"
  by (simp add: verify_otp_def)

lemma verify_otp_404_iff:
  "fst (verify_otp (Some auth) now req) = Inl (HTTPException 404 ''Start verification first'')
   \<longleftrightarrow> find_one (by_phone (verify_phone req)) auth = None"
  by (cases "find_one (by_phone (verify_phone req)) auth") (simp_all add: verify_otp_def)



text \<open>
  Claim C2 says that for every valid name and phone, \<^verbatim>\<open>start_otp\<close> followed by
  \<^verbatim>\<open>verify_otp\<close> with the same phone string and the returned code succeeds. The code at the
  valid phone \<^verbatim>\<open>" 5551234567"\<close> (a leading space, eleven characters): the document is stored
  under \<^verbatim>\<open>"5551234567"\<close> and the verification with the same string and the returned code
  fails with status 404, the document staying unverified with its code.
\<close>

theorem start_then_verify_padded_phone:
  "valid_StartOtpRequest \<lparr>start_name = ''Alice'', start_phone = '' 5551234567''\<rparr>
   \<and> valid_VerifyOtpRequest \<lparr>verify_phone = '' 5551234567'', verify_otp_code = ''123456''\<rparr>
   \<and> start_otp (Some [])
        \<lparr>rand = 123456, now_expires = 10, now_updated = 11, now_created = 12, new_id = 1\<rparr>
        \<lparr>start_name = ''Alice'', start_phone = '' 5551234567''\<rparr>
      = (Inr \<lparr>start_ok = True, demo_otp = ''123456'', expires_in_sec = 300\<rparr>,
         Some [\<lparr>doc_id = 1, name = ''Alice'', phone = ''5551234567'', otp_code = Some ''123456'',
                otp_expires = Some 300000010, verified = False, created_at = 12, updated_at = 11\<rparr>])
   \<and> verify_otp
        (Some [\<lparr>doc_id = 1, name = ''Alice'', phone = ''5551234567'', otp_code = Some ''123456'',
                otp_expires = Some 300000010, verified = False, created_at = 12, updated_at = 11\<rparr>])
        20 \<lparr>verify_phone = '' 5551234567'', verify_otp_code = ''123456''\<rparr>
      = (Inl (HTTPException 404 ''Start verification first''),
         Some [\<lparr>doc_id = 1, name = ''Alice'', phone = ''5551234567'', otp_code = Some ''123456'',
                otp_expires = Some 300000010, verified = False, created_at = 12, updated_at = 11\<rparr>])"
proof -
  have s: "strip ''Alice'' = ''Alice''" "strip '' 5551234567'' = ''5551234567''"
    by (simp_all add: strip_def lstrip_def rstrip_def isspace_def whitespace_def)
  have f: "format_int 123456 = ''123456''"
    by (simp add: format_int_def str_nat.simps digit_char_def digits_def)
  show ?thesis
    by (simp add: valid_StartOtpRequest_def valid_VerifyOtpRequest_def start_otp_Some s f
        inserted_doc_def timedelta_minutes_def verify_otp_def find_one_Cons find_one_Nil by_phone_def)
qed

theorem start_then_verify_padded_phone_witness:
  "fst (verify_otp
         (snd (start_otp (Some [])
            \<lparr>rand = 123456, now_expires = 10, now_updated = 11, now_created = 12, new_id = 1\<rparr>
            \<lparr>start_name = ''Alice'', start_phone = '' 5551234567''\<rparr>))
         20 \<lparr>verify_phone = '' 5551234567'', verify_otp_code = ''123456''\<rparr>)
     = Inl (HTTPException 404 ''Start verification first'')"
  using start_then_verify_padded_phone by simp

lemma update_one_ids:
  assumes "\<And>d. doc_id (u d) = doc_id d"
  shows "map doc_id (update_one q u ins ds) =
           map doc_id ds @ (if find_one q ds = None then map doc_id (case ins of None \<Rightarrow> [] | Some i \<Rightarrow> [i]) else [])"
  by (induction ds) (auto simp: find_one_Cons find_one_Nil assms split: option.splits)

lemma unique_ids_start_otp:
  assumes "unique_ids auth" and "new_id env \<notin> doc_id ` set auth"
  shows "unique_ids (docs (snd (start_otp (Some auth) env req)))"
  using assms
  by (auto simp: start_otp_Some unique_ids_def update_one_ids set_payload_def inserted_doc_def)

text \<open>
  For a phone without surrounding whitespace the round trip does succeed: \<^verbatim>\<open>verify_otp\<close>
  with the returned code, up to the expiry, answers \<^verbatim>\<open>verified\<close> and leaves the document
  of the phone verified and without OTP fields.
\<close>

lemma start_then_verify_stripped:
  assumes "strip (start_phone req) = start_phone req"
    and "now \<le> now_expires env + timedelta_minutes 5"
    and "unique_ids auth" and "new_id env \<notin> doc_id ` set auth"
  shows "fst (verify_otp (snd (start_otp (Some auth) env req)) now
               \<lparr>verify_phone = start_phone req, verify_otp_code = format_int (randint 100000 999999 (rand env))\<rparr>)
           = Inr \<lparr>verify_ok = True, resp_verified = True\<rparr>
       \<and> (\<exists>d. find_one (by_phone (start_phone req))
                 (docs (snd (verify_otp (snd (start_otp (Some auth) env req)) now
                    \<lparr>verify_phone = start_phone req, verify_otp_code = format_int (randint 100000 999999 (rand env))\<rparr>))) = Some d
              \<and> verified d \<and> otp_code d = None \<and> otp_expires d = None)"
proof -
  let ?vreq = "\<lparr>verify_phone = start_phone req, verify_otp_code = format_int (randint 100000 999999 (rand env))\<rparr>"
  obtain auth' where a: "snd (start_otp (Some auth) env req) = Some auth'"
    by (simp add: start_otp_Some)
  from start_otp_stored [of req auth env] assms(1) a
  obtain d where d: "find_one (by_phone (start_phone req)) auth' = Some d"
    "otp_code d = Some (format_int (randint 100000 999999 (rand env)))"
    "otp_expires d = Some (now_expires env + timedelta_minutes 5)" by auto
  from verify_otp_pending [of ?vreq auth' d "format_int (randint 100000 999999 (rand env))" "now_expires env + timedelta_minutes 5" now] d assms(2)
  have ok: "fst (verify_otp (Some auth') now ?vreq) = Inr \<lparr>verify_ok = True, resp_verified = True\<rparr>"
    by (simp add: format_int_nonempty)
  from unique_ids_start_otp [OF assms(3,4), of req] a have "unique_ids (docs (Some auth'))" by simp
  from verify_otp_success_record [OF ok this] obtain r where
    "find_one (by_phone (verify_phone ?vreq)) (docs (snd (verify_otp (Some auth') now ?vreq))) = Some (mark_verified r)"
    by blast
  then have "\<exists>d. find_one (by_phone (start_phone req)) (docs (snd (verify_otp (Some auth') now ?vreq))) = Some d
              \<and> verified d \<and> otp_code d = None \<and> otp_expires d = None"
    by (simp add: mark_verified_def)
  with ok a show ?thesis by simp
qed

end
